theory Spec2Isabelle
  imports Main "HOL-Library.Sublist" "HOL-Library.Monad_Syntax"
begin

section \<open>Data model\<close>

text \<open>
  The application (\<^verbatim>\<open>src/App.tsx\<close>; \<^verbatim>\<open>src/unnamed/part_000\<close> is the restyled variant with
  the same store code) keeps a list of advertisements in React state and mirrors it
  into one AsyncStorage slot.

  A JavaScript string is modelled as a \<^typ>\<open>string\<close> whose characters are the UTF-16 code
  units below \<open>0x100\<close> (the Latin-1 range); \<^verbatim>\<open>number\<close> values that hold timestamps are
  modelled as \<^typ>\<open>int\<close>.  The field \<^verbatim>\<open>id\<close> of the source is called \<open>id_ad\<close> here, since
  \<open>id\<close> is the identity function of HOL.
\<close>

record advertisement =
  id_ad :: string
  imageUri :: string
  description :: string
  url :: string
  createdAt :: int

datatype screen = Home | Add | Details

section \<open>String primitives of the platform\<close>

text \<open>
  \<^verbatim>\<open>String.prototype.trim\<close>: strips white space and line terminators from both ends.
  In the modelled range these are TAB, LF, VT, FF, CR, SPACE and NBSP.
\<close>

definition isWhiteSpace :: "char \<Rightarrow> bool" where
  "isWhiteSpace c = (of_char c \<in> {9, 10, 11, 12, 13, 32, 160 :: nat})"

definition trim :: "string \<Rightarrow> string" where
  "trim s = rev (dropWhile isWhiteSpace (rev (dropWhile isWhiteSpace s)))"

text \<open>
  \<^verbatim>\<open>String.prototype.toLowerCase\<close>: in the modelled range the letters with a lower-case
  partner are \<open>A\<close>..\<open>Z\<close> and \<open>0xC0\<close>..\<open>0xDE\<close> without the multiplication sign \<open>0xD7\<close>;
  the partner is 32 code units up.
\<close>

definition lowerChar :: "char \<Rightarrow> char" where
  "lowerChar c =
     (let n = (of_char c :: nat) in
      if (65 \<le> n \<and> n \<le> 90) \<or> (192 \<le> n \<and> n \<le> 222 \<and> n \<noteq> 215)
      then char_of (n + 32) else c)"

definition toLowerCase :: "string \<Rightarrow> string" where
  "toLowerCase s = map lowerChar s"

text \<open>
  \<^verbatim>\<open>String.prototype.includes\<close>: \<open>includes s q\<close> holds when \<open>q\<close> occurs in \<open>s\<close> as a
  contiguous run of code units.
\<close>

fun includes_str :: "string \<Rightarrow> string \<Rightarrow> bool" where
  "includes_str [] q = (q = [])"
| "includes_str (c # cs) q = (prefix q (c # cs) \<or> includes_str cs q)"

section \<open>Numbers and dates as text\<close>

definition digitChar :: "nat \<Rightarrow> char" where
  "digitChar d = char_of (48 + d)"

text \<open>
  \<^verbatim>\<open>Number.prototype.toString\<close> on an integer: its decimal digits, most significant
  first, with a minus sign when negative.  (JavaScript switches to exponent notation
  from \<open>10^21\<close> on; clock readings are far below.)
\<close>

function digits10 :: "nat \<Rightarrow> string" where
  "digits10 n = (if n < 10 then [digitChar n] else digits10 (n div 10) @ [digitChar (n mod 10)])"
  by pat_completeness auto
termination
  by (relation "measure (\<lambda>n. n)") auto

declare digits10.simps [simp del]

definition Number_toString :: "int \<Rightarrow> string" where
  "Number_toString i = (if i < 0 then CHR ''-'' # digits10 (nat (- i)) else digits10 (nat i))"

text \<open>
  Modelled from the spec: the rendering of \<^verbatim>\<open>toLocaleDateString('pl-PL', {day: '2-digit',
  month: '2-digit', year: 'numeric', hour: '2-digit', minute: '2-digit'})\<close>.  The function
  belongs to the platform and is not in the sources; the spec gives its output as
  \<open>DD.MM.YYYY HH:MM\<close>, day/month/year with 24-hour time.  \<open>formatDate off ms\<close> renders the
  instant \<open>ms\<close> (epoch milliseconds) in the zone that is \<open>off\<close> minutes ahead of UTC.
  The search below takes the renderer as a parameter, so that its properties hold for
  whatever the platform prints.
\<close>

definition pad2 :: "nat \<Rightarrow> string" where
  "pad2 n = [digitChar (n div 10 mod 10), digitChar (n mod 10)]"

definition civilFromDays :: "int \<Rightarrow> int \<times> nat \<times> nat" where
  "civilFromDays z0 =
     (let z = z0 + 719468;
          era = z div 146097;
          doe = z - era * 146097;
          yoe = (doe - doe div 1460 + doe div 36524 - doe div 146096) div 365;
          doy = doe - (365 * yoe + yoe div 4 - yoe div 100);
          mp = (5 * doy + 2) div 153;
          d = doy - (153 * mp + 2) div 5 + 1;
          m = (if mp < 10 then mp + 3 else mp - 9);
          y = yoe + era * 400 + (if m \<le> 2 then 1 else 0)
      in (y, nat m, nat d))"

definition formatDate :: "int \<Rightarrow> int \<Rightarrow> string" where
  "formatDate off ms =
     (let t = ms + off * 60000;
          (y, m, d) = civilFromDays (t div 86400000);
          minutes = nat ((t mod 86400000) div 60000)
      in pad2 d @ ''.'' @ pad2 m @ ''.'' @ Number_toString y @ '' '' @
         pad2 (minutes div 60) @ '':'' @ pad2 (minutes mod 60))"

section \<open>Search\<close>

text \<open>
  The predicate of \<^verbatim>\<open>filteredAdvertisements\<close> (\<^verbatim>\<open>HomeScreen\<close>).  The first parameter is
  the platform's date renderer.  The query is lower-cased but not trimmed before it is
  matched; the trimmed query only decides whether any matching is done.
\<close>

definition matchesQuery :: "(int \<Rightarrow> string) \<Rightarrow> string \<Rightarrow> advertisement \<Rightarrow> bool" where
  "matchesQuery toLocaleDateString searchQuery ad =
     (if trim searchQuery = [] then True
      else
        (let query = toLowerCase searchQuery;
             description = toLowerCase (description ad);
             url = toLowerCase (url ad);
             date = toLocaleDateString (createdAt ad)
         in includes_str description query \<or> includes_str url query \<or> includes_str date query))"

definition filteredAdvertisements ::
  "(int \<Rightarrow> string) \<Rightarrow> string \<Rightarrow> advertisement list \<Rightarrow> advertisement list" where
  "filteredAdvertisements toLocaleDateString searchQuery advertisements =
     filter (matchesQuery toLocaleDateString searchQuery) advertisements"

section \<open>The durable slot as JSON text\<close>

text \<open>
  \<^verbatim>\<open>JSON.stringify\<close> on an \<^verbatim>\<open>Advertisement[]\<close>: no indentation, the keys of each object
  in creation order (\<^verbatim>\<open>id\<close>, \<^verbatim>\<open>imageUri\<close>, \<^verbatim>\<open>description\<close>, \<^verbatim>\<open>url\<close>, \<^verbatim>\<open>createdAt\<close>),
  strings quoted as ECMAScript's \<^verbatim>\<open>QuoteJSONString\<close> does: the quote and the backslash
  are escaped, the control characters below \<open>0x20\<close> are written with their short escape
  (\<^verbatim>\<open>\b \t \n \f \r\<close>) or as \<^verbatim>\<open>\u00XX\<close> in lower-case hexadecimal, every other code unit
  stands for itself.
\<close>

definition hexDigit :: "nat \<Rightarrow> char" where
  "hexDigit k = (if k < 10 then char_of (48 + k) else char_of (87 + k))"

definition escapeChar :: "char \<Rightarrow> string" where
  "escapeChar c =
     (if c = CHR 0x22 then [CHR 0x5C, CHR 0x22]
      else if c = CHR 0x5C then [CHR 0x5C, CHR 0x5C]
      else if c = CHR 0x08 then [CHR 0x5C, CHR ''b'']
      else if c = CHR 0x09 then [CHR 0x5C, CHR ''t'']
      else if c = CHR 0x0A then [CHR 0x5C, CHR ''n'']
      else if c = CHR 0x0C then [CHR 0x5C, CHR ''f'']
      else if c = CHR 0x0D then [CHR 0x5C, CHR ''r'']
      else if (of_char c :: nat) < 32 then
        [CHR 0x5C, CHR ''u'', CHR ''0'', CHR ''0'',
         hexDigit (of_char c div 16), hexDigit (of_char c mod 16)]
      else [c])"

definition QuoteJSONString :: "string \<Rightarrow> string" where
  "QuoteJSONString s = CHR 0x22 # concat (map escapeChar s) @ [CHR 0x22]"

definition stringify_ad :: "advertisement \<Rightarrow> string" where
  \<open>stringify_ad ad =
     ''{"id":'' @ QuoteJSONString (id_ad ad) @
     '',"imageUri":'' @ QuoteJSONString (imageUri ad) @
     '',"description":'' @ QuoteJSONString (description ad) @
     '',"url":'' @ QuoteJSONString (url ad) @
     '',"createdAt":'' @ Number_toString (createdAt ad) @ ''}''\<close>

fun stringifyElements :: "advertisement list \<Rightarrow> string" where
  "stringifyElements [] = []"
| "stringifyElements [a] = stringify_ad a"
| "stringifyElements (a # b # bs) = stringify_ad a @ '','' @ stringifyElements (b # bs)"

definition JSON_stringify :: "advertisement list \<Rightarrow> string" where
  "JSON_stringify ads = ''['' @ stringifyElements ads @ '']''"

text \<open>
  \<^verbatim>\<open>JSON.parse\<close> in three steps: the text is cut into tokens, the tokens are checked
  against the JSON grammar, and the value is read at the type the program gives it
  (\<^verbatim>\<open>setAdvertisements(JSON.parse(stored))\<close>, an \<^verbatim>\<open>Advertisement[]\<close>).

  The tokens of JSON.  A string token carries the code units the literal denotes, an
  escape \<^verbatim>\<open>\uXXXX\<close> any code unit up to \<open>0xFFFF\<close>.  A number token carries its value
  when the literal is an integer literal, and \<open>None\<close> when it has a fraction or an
  exponent (its value is then a floating-point number, which the model does not
  compute).
\<close>

datatype token =
    LBrace | RBrace | LBracket | RBracket | Colon | Comma
  | TString "nat list"
  | TNumber "int option"
  | TTrue | TFalse | TNull

definition hexVal :: "char \<Rightarrow> nat option" where
  "hexVal c =
     (let n = (of_char c :: nat) in
      if 48 \<le> n \<and> n \<le> 57 then Some (n - 48)
      else if 97 \<le> n \<and> n \<le> 102 then Some (n - 87)
      else if 65 \<le> n \<and> n \<le> 70 then Some (n - 55)
      else None)"

definition unescape :: "char \<Rightarrow> char option" where
  "unescape e =
     (if e = CHR 0x22 then Some (CHR 0x22)
      else if e = CHR 0x5C then Some (CHR 0x5C)
      else if e = CHR ''/'' then Some (CHR ''/'')
      else if e = CHR ''b'' then Some (CHR 0x08)
      else if e = CHR ''f'' then Some (CHR 0x0C)
      else if e = CHR ''n'' then Some (CHR 0x0A)
      else if e = CHR ''r'' then Some (CHR 0x0D)
      else if e = CHR ''t'' then Some (CHR 0x09)
      else None)"

text \<open>
  The characters of a string literal after its opening quote, up to the closing one:
  every escape of the JSON string grammar (\<^verbatim>\<open>\" \\ \/ \b \f \n \r \t \uXXXX\<close>,
  hexadecimal digits in either case); a raw control character below \<open>0x20\<close> is an error.
\<close>

fun parse_chars :: "string \<Rightarrow> (nat list \<times> string) option" where
  "parse_chars [] = None"
| "parse_chars (c # cs) =
     (if c = CHR 0x22 then Some ([], cs)
      else if c = CHR 0x5C then
        (case cs of
           [] \<Rightarrow> None
         | e # cs1 \<Rightarrow>
             if e = CHR ''u'' then
               (case cs1 of
                  h1 # h2 # h3 # h4 # cs2 \<Rightarrow>
                    (case (hexVal h1, hexVal h2, hexVal h3, hexVal h4) of
                       (Some a, Some b, Some c', Some d) \<Rightarrow>
                         (case parse_chars cs2 of
                            None \<Rightarrow> None
                          | Some (r, rest) \<Rightarrow>
                              Some ((4096 * a + 256 * b + 16 * c' + d) # r, rest))
                     | _ \<Rightarrow> None)
                | _ \<Rightarrow> None)
             else
               (case unescape e of
                  None \<Rightarrow> None
                | Some ch \<Rightarrow>
                    (case parse_chars cs1 of
                       None \<Rightarrow> None
                     | Some (r, rest) \<Rightarrow> Some (of_char ch # r, rest))))
      else if (of_char c :: nat) < 32 then None
      else
        (case parse_chars cs of
           None \<Rightarrow> None
         | Some (r, rest) \<Rightarrow> Some (of_char c # r, rest)))"

text \<open>
  A number literal: an optional minus sign, an integer part (a single \<open>0\<close>, or digits
  that do not start with \<open>0\<close>), an optional fraction and an optional exponent.
\<close>

definition isDigit :: "char \<Rightarrow> bool" where
  "isDigit c = (48 \<le> (of_char c :: nat) \<and> (of_char c :: nat) \<le> 57)"

definition natOfDigits :: "string \<Rightarrow> nat" where
  "natOfDigits ds = foldl (\<lambda>acc c. 10 * acc + (of_char c - 48)) 0 ds"

definition intPart :: "string \<Rightarrow> (string \<times> string) option" where
  "intPart s =
     (case s of
        [] \<Rightarrow> None
      | c # cs \<Rightarrow>
          if \<not> isDigit c then None
          else if c = CHR ''0'' then Some ([c], cs)
          else Some (takeWhile isDigit s, dropWhile isDigit s))"

definition fracPart :: "string \<Rightarrow> (bool \<times> string) option" where
  "fracPart s =
     (case s of
        [] \<Rightarrow> Some (False, s)
      | c # cs \<Rightarrow>
          if c \<noteq> CHR ''.'' then Some (False, s)
          else if takeWhile isDigit cs = [] then None
          else Some (True, dropWhile isDigit cs))"

definition expPart :: "string \<Rightarrow> (bool \<times> string) option" where
  "expPart s =
     (case s of
        [] \<Rightarrow> Some (False, s)
      | c # cs \<Rightarrow>
          if c \<noteq> CHR ''e'' \<and> c \<noteq> CHR ''E'' then Some (False, s)
          else
            (let cs1 = (if cs \<noteq> [] \<and> (hd cs = CHR ''+'' \<or> hd cs = CHR ''-'') then tl cs else cs)
             in if takeWhile isDigit cs1 = [] then None
                else Some (True, dropWhile isDigit cs1)))"

definition parse_number :: "string \<Rightarrow> (int option \<times> string) option" where
  "parse_number s =
     (let neg = (s \<noteq> [] \<and> hd s = CHR ''-'');
          s1 = (if neg then tl s else s)
      in do {
        (ds, r1) \<leftarrow> intPart s1;
        (frac, r2) \<leftarrow> fracPart r1;
        (ex, r3) \<leftarrow> expPart r2;
        Some (if frac \<or> ex then None
              else Some (if neg then - int (natOfDigits ds) else int (natOfDigits ds)),
              r3)
      })"

text \<open>Insignificant white space (space, tab, line feed, carriage return) and punctuation.\<close>

definition isJsonWs :: "char \<Rightarrow> bool" where
  "isJsonWs c = (c = CHR '' '' \<or> c = CHR 0x09 \<or> c = CHR 0x0A \<or> c = CHR 0x0D)"

definition structural :: "char \<Rightarrow> token option" where
  "structural c =
     (if c = CHR ''{'' then Some LBrace
      else if c = CHR ''}'' then Some RBrace
      else if c = CHR ''['' then Some LBracket
      else if c = CHR '']'' then Some RBracket
      else if c = CHR '':'' then Some Colon
      else if c = CHR '','' then Some Comma
      else None)"

text \<open>Every scanner consumes input, so the lexer below terminates.\<close>

lemma parse_chars_length: "parse_chars s = Some (r, rest) \<Longrightarrow> length rest < length s"
proof (induction s arbitrary: r rest rule: length_induct)
  case (1 s)
  show ?case
  proof (cases s)
    case Nil
    with "1.prems" show ?thesis by simp
  next
    case (Cons c cs)
    have IH: "length rest' < length t"
      if "parse_chars t = Some (r', rest')" and "length t \<le> length cs" for t r' rest'
      using "1.IH" that Cons by auto
    from "1.prems" Cons show ?thesis
      by (auto split: if_splits list.splits option.splits dest!: IH)
  qed
qed

lemma intPart_length: "intPart s = Some (ds, rest) \<Longrightarrow> length rest < length s"
proof -
  assume a: "intPart s = Some (ds, rest)"
  show ?thesis
  proof (cases s)
    case Nil
    with a show ?thesis by (simp add: intPart_def)
  next
    case (Cons c cs)
    with a have "isDigit c"
      by (auto simp: intPart_def split: if_splits)
    then have "dropWhile isDigit (c # cs) = dropWhile isDigit cs"
      by simp
    then have "length (dropWhile isDigit (c # cs)) < length (c # cs)"
      using length_dropWhile_le [of isDigit cs] by simp
    with a Cons show ?thesis
      by (auto simp: intPart_def split: if_splits)
  qed
qed

lemma fracPart_length: "fracPart s = Some (b, rest) \<Longrightarrow> length rest \<le> length s"
proof -
  assume a: "fracPart s = Some (b, rest)"
  have "length (dropWhile isDigit (tl s)) \<le> length s"
    using length_dropWhile_le [of isDigit "tl s"] by simp
  with a show ?thesis
    by (cases s) (auto simp: fracPart_def split: if_splits)
qed

lemma expPart_length: "expPart s = Some (b, rest) \<Longrightarrow> length rest \<le> length s"
proof -
  assume a: "expPart s = Some (b, rest)"
  have "length (dropWhile isDigit (tl s)) \<le> length s"
    using length_dropWhile_le [of isDigit "tl s"] by simp
  moreover have "length (dropWhile isDigit (tl (tl s))) \<le> length s"
    using length_dropWhile_le [of isDigit "tl (tl s)"] by simp
  ultimately show ?thesis
    using a by (cases s) (auto simp: expPart_def Let_def split: if_splits)
qed

lemma parse_number_length: "parse_number s = Some (v, rest) \<Longrightarrow> length rest < length s"
proof -
  assume a: "parse_number s = Some (v, rest)"
  then obtain ds r1 b1 r2 b2 where
    i: "intPart (if s \<noteq> [] \<and> hd s = CHR ''-'' then tl s else s) = Some (ds, r1)"
    and f: "fracPart r1 = Some (b1, r2)" and e: "expPart r2 = Some (b2, rest)"
    by (auto simp: parse_number_def Let_def split: bind_splits)
  have "length r1 < length s"
    using intPart_length [OF i] by (auto split: if_splits)
  with fracPart_length [OF f] expPart_length [OF e] show ?thesis
    by simp
qed

text \<open>The lexer: \<open>None\<close> when the text holds something that is no JSON token.\<close>

function tokens :: "string \<Rightarrow> token list option" where
  "tokens [] = Some []"
| "tokens (c # cs) =
     (if isJsonWs c then tokens cs
      else
        (case structural c of
           Some t \<Rightarrow> map_option (Cons t) (tokens cs)
         | None \<Rightarrow>
             if c = CHR 0x22 then
               (case parse_chars cs of
                  None \<Rightarrow> None
                | Some (str, rest) \<Rightarrow> map_option (Cons (TString str)) (tokens rest))
             else if c = CHR ''-'' \<or> isDigit c then
               (case parse_number (c # cs) of
                  None \<Rightarrow> None
                | Some (v, rest) \<Rightarrow> map_option (Cons (TNumber v)) (tokens rest))
             else if prefix ''true'' (c # cs) then
               map_option (Cons TTrue) (tokens (drop 4 (c # cs)))
             else if prefix ''false'' (c # cs) then
               map_option (Cons TFalse) (tokens (drop 5 (c # cs)))
             else if prefix ''null'' (c # cs) then
               map_option (Cons TNull) (tokens (drop 4 (c # cs)))
             else None))"
  by pat_completeness auto
termination
  by (relation "measure length") (auto dest!: parse_chars_length parse_number_length)

declare tokens.simps(2) [simp del]

text \<open>
  The JSON grammar over tokens, as a pushdown recogniser: what may come next, and the
  stack of the arrays and objects that are open.  A text is accepted when it is one
  complete value: a scalar, an array of values, or an object of string keys and values.
\<close>

datatype ctx = InArray | InObject

datatype expecting = Value | ValueOrClose | KeyOrClose | Key | ColonNext | CommaOrClose

definition isScalar :: "token \<Rightarrow> bool" where
  "isScalar t =
     (case t of
        TString _ \<Rightarrow> True | TNumber _ \<Rightarrow> True | TTrue \<Rightarrow> True | TFalse \<Rightarrow> True
      | TNull \<Rightarrow> True | _ \<Rightarrow> False)"

definition openValue :: "ctx list \<Rightarrow> token \<Rightarrow> (expecting \<times> ctx list) option" where
  "openValue st t =
     (if isScalar t then Some (CommaOrClose, st)
      else if t = LBracket then Some (ValueOrClose, InArray # st)
      else if t = LBrace then Some (KeyOrClose, InObject # st)
      else None)"

definition keyToken :: "ctx list \<Rightarrow> token \<Rightarrow> (expecting \<times> ctx list) option" where
  "keyToken st t = (case t of TString _ \<Rightarrow> Some (ColonNext, st) | _ \<Rightarrow> None)"

definition advance :: "expecting \<Rightarrow> ctx list \<Rightarrow> token \<Rightarrow> (expecting \<times> ctx list) option" where
  "advance e st t =
     (case e of
        Value \<Rightarrow> openValue st t
      | ValueOrClose \<Rightarrow> if t = RBracket then Some (CommaOrClose, tl st) else openValue st t
      | KeyOrClose \<Rightarrow> if t = RBrace then Some (CommaOrClose, tl st) else keyToken st t
      | Key \<Rightarrow> keyToken st t
      | ColonNext \<Rightarrow> if t = Colon then Some (Value, st) else None
      | CommaOrClose \<Rightarrow>
          (case st of
             [] \<Rightarrow> None
           | InArray # st' \<Rightarrow>
               if t = Comma then Some (Value, st)
               else if t = RBracket then Some (CommaOrClose, st')
               else None
           | InObject # st' \<Rightarrow>
               if t = Comma then Some (Key, st)
               else if t = RBrace then Some (CommaOrClose, st')
               else None))"

fun accepts :: "expecting \<Rightarrow> ctx list \<Rightarrow> token list \<Rightarrow> bool" where
  "accepts e st [] = (e = CommaOrClose \<and> st = [])"
| "accepts e st (t # ts) =
     (case advance e st t of None \<Rightarrow> False | Some (e', st') \<Rightarrow> accepts e' st' ts)"

definition wellFormed :: "token list \<Rightarrow> bool" where
  "wellFormed ts = accepts Value [] ts"

text \<open>
  The value read as an \<^verbatim>\<open>Advertisement[]\<close> of the model: an array of objects that have
  exactly the five keys \<^verbatim>\<open>id\<close>, \<^verbatim>\<open>imageUri\<close>, \<^verbatim>\<open>description\<close>, \<^verbatim>\<open>url\<close>, \<^verbatim>\<open>createdAt\<close> in
  this order (the order in which the program creates and writes them), four strings of
  code units below \<open>0x100\<close> and an integer literal.  (An integer literal is read as that
  integer; JavaScript agrees up to a magnitude of \<open>2^53\<close>, far above any clock reading.)
\<close>

definition takeString :: "token list \<Rightarrow> (string \<times> token list) option" where
  "takeString ts =
     (case ts of
        TString cs # r \<Rightarrow>
          if list_all (\<lambda>n. n < 256) cs then Some (map char_of cs, r) else None
      | _ \<Rightarrow> None)"

definition takeInteger :: "token list \<Rightarrow> (int \<times> token list) option" where
  "takeInteger ts = (case ts of TNumber (Some n) # r \<Rightarrow> Some (n, r) | _ \<Rightarrow> None)"

definition expectToken :: "token \<Rightarrow> token list \<Rightarrow> token list option" where
  "expectToken t ts = (case ts of [] \<Rightarrow> None | t' # r \<Rightarrow> if t' = t then Some r else None)"

definition expectKey :: "string \<Rightarrow> token list \<Rightarrow> token list option" where
  "expectKey k ts = do {
     (k', r) \<leftarrow> takeString ts;
     if k' = k then expectToken Colon r else None
   }"

definition read_ad :: "token list \<Rightarrow> (advertisement \<times> token list) option" where
  "read_ad ts = do {
     ts1 \<leftarrow> expectToken LBrace ts;
     ts2 \<leftarrow> expectKey ''id'' ts1;
     (i, ts3) \<leftarrow> takeString ts2;
     ts4 \<leftarrow> expectToken Comma ts3;
     ts5 \<leftarrow> expectKey ''imageUri'' ts4;
     (img, ts6) \<leftarrow> takeString ts5;
     ts7 \<leftarrow> expectToken Comma ts6;
     ts8 \<leftarrow> expectKey ''description'' ts7;
     (d, ts9) \<leftarrow> takeString ts8;
     ts10 \<leftarrow> expectToken Comma ts9;
     ts11 \<leftarrow> expectKey ''url'' ts10;
     (u, ts12) \<leftarrow> takeString ts11;
     ts13 \<leftarrow> expectToken Comma ts12;
     ts14 \<leftarrow> expectKey ''createdAt'' ts13;
     (t, ts15) \<leftarrow> takeInteger ts14;
     ts16 \<leftarrow> expectToken RBrace ts15;
     Some (\<lparr>id_ad = i, imageUri = img, description = d, url = u, createdAt = t\<rparr>, ts16)
   }"

lemma expectToken_length: "expectToken t ts = Some r \<Longrightarrow> length r < length ts"
  by (auto simp: expectToken_def split: list.splits if_splits)

lemma takeString_length: "takeString ts = Some (x, r) \<Longrightarrow> length r < length ts"
  by (auto simp: takeString_def split: list.splits token.splits if_splits)

lemma takeInteger_length: "takeInteger ts = Some (x, r) \<Longrightarrow> length r < length ts"
  by (auto simp: takeInteger_def split: list.splits token.splits option.splits)

lemma expectKey_length: "expectKey k ts = Some r \<Longrightarrow> length r < length ts"
  by (auto simp: expectKey_def split: bind_splits if_splits
      dest!: takeString_length expectToken_length)

lemma read_ad_length: "read_ad ts = Some (a, r) \<Longrightarrow> length r < length ts"
  unfolding read_ad_def
  by (auto split: bind_splits
      dest!: expectToken_length takeString_length takeInteger_length expectKey_length)

function read_elements :: "token list \<Rightarrow> (advertisement list \<times> token list) option" where
  "read_elements ts =
     (case read_ad ts of
        None \<Rightarrow> None
      | Some (a, r) \<Rightarrow>
          (case r of
             [] \<Rightarrow> None
           | t # r1 \<Rightarrow>
               if t = RBracket then Some ([a], r1)
               else if t = Comma then
                 (case read_elements r1 of
                    None \<Rightarrow> None
                  | Some (as, r2) \<Rightarrow> Some (a # as, r2))
               else None))"
  by pat_completeness auto
termination
  by (relation "measure length") (auto dest!: read_ad_length)

declare read_elements.simps [simp del]

definition readAdvertisements :: "token list \<Rightarrow> advertisement list option" where
  "readAdvertisements ts =
     (case ts of
        [] \<Rightarrow> None
      | t # r \<Rightarrow>
          if t \<noteq> LBracket then None
          else if r = [RBracket] then Some []
          else
            (case read_elements r of
               None \<Rightarrow> None
             | Some (ads, rest) \<Rightarrow> if rest = [] then Some ads else None))"

text \<open>
  The three outcomes of \<^verbatim>\<open>JSON.parse\<close>: it throws a \<^verbatim>\<open>SyntaxError\<close> when the text is not
  JSON; it returns an \<^verbatim>\<open>Advertisement[]\<close> of the model; or it returns some other value
  (\<^verbatim>\<open>null\<close>, a number, an object, an array of other things, records with other keys, a
  string beyond the modelled range), which the typed model cannot hold.
\<close>

datatype parsed = SyntaxError | Advertisements "advertisement list" | OtherValue

definition JSON_parse :: "string \<Rightarrow> parsed" where
  "JSON_parse s =
     (case tokens s of
        None \<Rightarrow> SyntaxError
      | Some ts \<Rightarrow>
          if \<not> wellFormed ts then SyntaxError
          else
            (case readAdvertisements ts of
               Some ads \<Rightarrow> Advertisements ads
             | None \<Rightarrow> OtherValue))"

section \<open>The store\<close>

text \<open>
  The state of \<^verbatim>\<open>App\<close>: its four \<^verbatim>\<open>useState\<close> cells, the AsyncStorage slot
  \<^verbatim>\<open>'advertisements'\<close> (\<open>None\<close> when the key is absent), and what the program has shown
  or logged so far: the \<^verbatim>\<open>Alert.alert\<close> calls and the \<^verbatim>\<open>console.error\<close> calls, oldest first.
\<close>

datatype alert =
    AlertSaveFailed        \<comment> \<open>saveAdvertisements: the write failed\<close>
  | AlertAdded             \<comment> \<open>addAdvertisement: the success notice\<close>
  | AlertConfirmDelete     \<comment> \<open>deleteAdvertisement: the prompt with Cancel and Delete\<close>
  | AlertDeleted           \<comment> \<open>deleteAdvertisement: the notice after the deletion\<close>
  | AlertLimitReached      \<comment> \<open>handleAddPress: five advertisements already\<close>
  | AlertMissingImage      \<comment> \<open>handleSave: no image chosen\<close>
  | AlertMissingDescription \<comment> \<open>handleSave: blank description\<close>
  | AlertMissingUrl        \<comment> \<open>handleSave: blank link\<close>

datatype log_entry = LoadError | SaveError

record app_state =
  currentScreen :: screen
  advertisements :: "advertisement list"
  selectedAd :: "advertisement option"
  loading :: bool
  storage :: "string option"
  alerts :: "alert list"
  console :: "log_entry list"

text \<open>The state at mount: the initial values of the \<^verbatim>\<open>useState\<close> cells over a given slot.\<close>

definition initialState :: "string option \<Rightarrow> app_state" where
  "initialState slot =
     \<lparr>currentScreen = Home, advertisements = [], selectedAd = None, loading = True,
      storage = slot, alerts = [], console = []\<rparr>"

text \<open>
  \<^verbatim>\<open>loadAdvertisements\<close>.  \<open>readOk\<close> tells whether \<^verbatim>\<open>AsyncStorage.getItem\<close> resolves (with the
  slot's content) or rejects.  An absent key and an empty string are both falsy, so
  nothing is parsed for them.  The \<^verbatim>\<open>catch\<close> branch only logs; the \<^verbatim>\<open>finally\<close> branch
  clears \<open>loading\<close> on every path.  The function returns nothing to its caller: its
  effect is the new state.

  When \<^verbatim>\<open>JSON.parse\<close> returns a value that is not an \<^verbatim>\<open>Advertisement[]\<close> of the model, the
  code installs that value as it is, without logging; the state then holds something
  the typed model cannot follow, and the result is \<open>Unmodelled\<close>.
\<close>

datatype load_result = Loaded app_state | Unmodelled

definition loadAdvertisements :: "bool \<Rightarrow> app_state \<Rightarrow> load_result" where
  "loadAdvertisements readOk s =
     (let tried =
        (if \<not> readOk then Some (s\<lparr>console := console s @ [LoadError]\<rparr>)
         else
           (case storage s of
              None \<Rightarrow> Some s
            | Some stored \<Rightarrow>
                if stored = [] then Some s
                else
                  (case JSON_parse stored of
                     SyntaxError \<Rightarrow> Some (s\<lparr>console := console s @ [LoadError]\<rparr>)
                   | Advertisements ads \<Rightarrow> Some (s\<lparr>advertisements := ads\<rparr>)
                   | OtherValue \<Rightarrow> None)))
      in case tried of
           None \<Rightarrow> Unmodelled
         | Some s1 \<Rightarrow> Loaded (s1\<lparr>loading := False\<rparr>))"

text \<open>
  \<^verbatim>\<open>saveAdvertisements\<close>.  \<open>writeOk\<close> tells whether \<^verbatim>\<open>AsyncStorage.setItem\<close> resolves or
  rejects; a rejected write leaves the slot as it was.  \<^verbatim>\<open>setAdvertisements\<close> stands after
  the awaited write inside the \<^verbatim>\<open>try\<close>, so it is skipped when the write rejects.
\<close>

definition saveAdvertisements :: "bool \<Rightarrow> advertisement list \<Rightarrow> app_state \<Rightarrow> app_state" where
  "saveAdvertisements writeOk ads s =
     (if writeOk then s\<lparr>storage := Some (JSON_stringify ads), advertisements := ads\<rparr>
      else s\<lparr>console := console s @ [SaveError], alerts := alerts s @ [AlertSaveFailed]\<rparr>)"

text \<open>
  \<^verbatim>\<open>addAdvertisement\<close>.  \<open>now1\<close> and \<open>now2\<close> are the two readings of \<^verbatim>\<open>Date.now()\<close>, the
  first for the id and the second for \<^verbatim>\<open>createdAt\<close>.  The function has no check of the
  number of advertisements, and it goes to the home screen and shows the success notice
  whether or not the write went through.
\<close>

definition addAdvertisement ::
  "bool \<Rightarrow> int \<Rightarrow> int \<Rightarrow> string \<Rightarrow> string \<Rightarrow> string \<Rightarrow> app_state \<Rightarrow> app_state" where
  "addAdvertisement writeOk now1 now2 imageUri' description' url' s =
     (let newAd = \<lparr>id_ad = Number_toString now1, imageUri = imageUri',
                    description = description', url = url', createdAt = now2\<rparr>;
          updatedAds = newAd # advertisements s;
          s1 = saveAdvertisements writeOk updatedAds s;
          s2 = s1\<lparr>currentScreen := Home\<rparr>
      in s2\<lparr>alerts := alerts s2 @ [AlertAdded]\<rparr>)"

text \<open>
  \<^verbatim>\<open>deleteAdvertisement\<close>.  It shows the confirmation prompt; \<open>confirm\<close> tells whether the
  user presses the destructive button, whose handler filters the list, saves it, goes
  home and shows the notice.  The function returns no value.
\<close>

definition deleteAdvertisement :: "bool \<Rightarrow> bool \<Rightarrow> string \<Rightarrow> app_state \<Rightarrow> app_state" where
  "deleteAdvertisement confirm writeOk i s =
     (let s0 = s\<lparr>alerts := alerts s @ [AlertConfirmDelete]\<rparr>
      in if \<not> confirm then s0
         else
           (let updatedAds = filter (\<lambda>ad. id_ad ad \<noteq> i) (advertisements s);
                s1 = saveAdvertisements writeOk updatedAds s0;
                s2 = s1\<lparr>currentScreen := Home\<rparr>
            in s2\<lparr>alerts := alerts s2 @ [AlertDeleted]\<rparr>))"

definition openDetails :: "advertisement \<Rightarrow> app_state \<Rightarrow> app_state" where
  "openDetails ad s = s\<lparr>selectedAd := Some ad, currentScreen := Details\<rparr>"

text \<open>
  \<^verbatim>\<open>handleAddPress\<close> of the home screen: the only check of the limit of five.  The add
  button is rendered whether or not the initial load is over, so the handler does not
  look at \<open>loading\<close>.
\<close>

definition handleAddPress :: "app_state \<Rightarrow> app_state" where
  "handleAddPress s =
     (if 5 \<le> length (advertisements s) then s\<lparr>alerts := alerts s @ [AlertLimitReached]\<rparr>
      else s\<lparr>currentScreen := Add\<rparr>)"

text \<open>\<^verbatim>\<open>handleSave\<close> of the add screen, over the three form fields.\<close>

definition handleSave ::
  "bool \<Rightarrow> int \<Rightarrow> int \<Rightarrow> string \<Rightarrow> string \<Rightarrow> string \<Rightarrow> app_state \<Rightarrow> app_state" where
  "handleSave writeOk now1 now2 imageUri' description' url' s =
     (if imageUri' = [] then s\<lparr>alerts := alerts s @ [AlertMissingImage]\<rparr>
      else if trim description' = [] then s\<lparr>alerts := alerts s @ [AlertMissingDescription]\<rparr>
      else if trim url' = [] then s\<lparr>alerts := alerts s @ [AlertMissingUrl]\<rparr>
      else addAdvertisement writeOk now1 now2 imageUri' (trim description') (trim url') s)"

text \<open>
  The search as the home screen computes it from the state: a function of the query and
  the in-memory list only.
\<close>

definition search :: "(int \<Rightarrow> string) \<Rightarrow> string \<Rightarrow> app_state \<Rightarrow> advertisement list" where
  "search toLocaleDateString searchQuery s =
     filteredAdvertisements toLocaleDateString searchQuery (advertisements s)"

text \<open>A restart of the process: the React state is gone, the slot stays.\<close>

definition restart :: "app_state \<Rightarrow> app_state" where
  "restart s = initialState (storage s)"

section \<open>Example data\<close>

text \<open>
  The record of the spec's search example: created on 12 March 2024 at 09:00, here read
  as UTC, which is the instant 1710234000000.
\<close>

definition exampleAd :: advertisement where
  "exampleAd =
     \<lparr>id_ad = ''1710234000000'', imageUri = ''file:///cache/job1.png'',
      description = ''Senior React Developer'', url = ''https://x.com/job1'',
      createdAt = 1710234000000\<rparr>"

definition sampleAd :: "int \<Rightarrow> advertisement" where
  "sampleAd t =
     \<lparr>id_ad = Number_toString t, imageUri = ''file:///cache/img.png'',
      description = ''Job'', url = ''http://a'', createdAt = t\<rparr>"

text \<open>The two records of the spec's end-to-end scenario.\<close>

definition jobA :: advertisement where
  "jobA = \<lparr>id_ad = ''1'', imageUri = ''img1'', description = ''Job A'', url = ''http://a'',
            createdAt = 1\<rparr>"

definition jobB :: advertisement where
  "jobB = \<lparr>id_ad = ''2'', imageUri = ''img2'', description = ''Job B'', url = ''http://b'',
            createdAt = 2\<rparr>"

text \<open>A store that is full: five advertisements, the slot in step with the list.\<close>

definition fiveAds :: "advertisement list" where
  "fiveAds = map sampleAd [5, 4, 3, 2, 1]"

definition fullState :: app_state where
  "fullState =
     \<lparr>currentScreen = Home, advertisements = fiveAds, selectedAd = None, loading = False,
      storage = Some (JSON_stringify fiveAds), alerts = [], console = []\<rparr>"

text \<open>The state at mount over a slot that holds those five advertisements.\<close>

definition mountedOverFive :: app_state where
  "mountedOverFive = initialState (Some (JSON_stringify fiveAds))"

text \<open>A store with the single advertisement of id \<open>1\<close>.\<close>

definition oneAdState :: app_state where
  "oneAdState =
     \<lparr>currentScreen = Details, advertisements = [sampleAd 1], selectedAd = Some (sampleAd 1),
      loading = False, storage = Some (JSON_stringify [sampleAd 1]), alerts = [], console = []\<rparr>"

text \<open>The tokens of a record and of the elements of an array, as \<open>JSON_stringify\<close> writes them.\<close>

definition adTokens :: "advertisement \<Rightarrow> token list" where
  "adTokens a =
     [LBrace, TString (map of_char ''id''), Colon, TString (map of_char (id_ad a)), Comma,
      TString (map of_char ''imageUri''), Colon, TString (map of_char (imageUri a)), Comma,
      TString (map of_char ''description''), Colon, TString (map of_char (description a)), Comma,
      TString (map of_char ''url''), Colon, TString (map of_char (url a)), Comma,
      TString (map of_char ''createdAt''), Colon, TNumber (Some (createdAt a)), RBrace]"

fun elemTokens :: "advertisement list \<Rightarrow> token list" where
  "elemTokens [] = []"
| "elemTokens [a] = adTokens a"
| "elemTokens (a # b # bs) = adTokens a @ Comma # elemTokens (b # bs)"

section \<open>Properties of the string primitives\<close>

lemma includes_str_iff: "includes_str s q \<longleftrightarrow> (\<exists>ps ss. s = ps @ q @ ss)"
proof (induction s)
  case Nil
  then show ?case by auto
next
  case (Cons c cs)
  show ?case
  proof
    assume "includes_str (c # cs) q"
    then consider "prefix q (c # cs)" | "includes_str cs q" by auto
    then show "\<exists>ps ss. c # cs = ps @ q @ ss"
    proof cases
      case 1
      then obtain ss where "c # cs = q @ ss" by (auto simp: prefix_def)
      then have "c # cs = [] @ q @ ss" by simp
      then show ?thesis by blast
    next
      case 2
      with Cons.IH obtain ps ss where "cs = ps @ q @ ss" by blast
      then have "c # cs = (c # ps) @ q @ ss" by simp
      then show ?thesis by blast
    qed
  next
    assume "\<exists>ps ss. c # cs = ps @ q @ ss"
    then obtain ps ss where eq: "c # cs = ps @ q @ ss" by blast
    show "includes_str (c # cs) q"
    proof (cases ps)
      case Nil
      with eq have "prefix q (c # cs)" by (simp add: prefix_def)
      then show ?thesis by simp
    next
      case (Cons p ps')
      with eq have "cs = ps' @ q @ ss" by simp
      with Cons.IH have "includes_str cs q" by blast
      then show ?thesis by simp
    qed
  qed
qed

section \<open>Writing and reading the slot\<close>

text \<open>
  What \<^verbatim>\<open>JSON.stringify\<close> writes, \<^verbatim>\<open>JSON.parse\<close> reads back: first for one string
  literal and for a number, then for the tokens of the whole text, its grammar and the
  value read from it.
\<close>

lemma of_char_less_256: "(of_char c :: nat) < 256"
proof -
  have "(of_char c :: nat) mod 256 < 256"
    by (rule mod_less_divisor) simp
  then show ?thesis
    by simp
qed

lemma hexVal_hexDigit: "k < 16 \<Longrightarrow> hexVal (hexDigit k) = Some k"
  by (auto simp: hexVal_def hexDigit_def Let_def)

lemma hexVal_zero: "hexVal (CHR ''0'') = Some 0"
  by (simp add: hexVal_def)

lemma parse_chars_escapeChar:
  "parse_chars (escapeChar c @ t) =
     (case parse_chars t of None \<Rightarrow> None | Some (r, rest) \<Rightarrow> Some (of_char c # r, rest))"
proof -
  have small: "of_char c div 16 < (16::nat)" "of_char c mod 16 < (16::nat)"
    using of_char_less_256 [of c] by (presburger+)
  have recombine: "16 * (of_char c div 16) + of_char c mod 16 = (of_char c :: nat)"
    by simp
  show ?thesis
    by (auto simp: escapeChar_def unescape_def hexVal_hexDigit [OF small(1)]
        hexVal_hexDigit [OF small(2)] hexVal_zero recombine split: option.splits)
qed

lemma parse_chars_quoted:
  "parse_chars (concat (map escapeChar s) @ CHR 0x22 # rest) = Some (map of_char s, rest)"
  by (induction s) (simp_all add: parse_chars_escapeChar)

lemma natOfDigits_snoc: "natOfDigits (ds @ [c]) = 10 * natOfDigits ds + (of_char c - 48)"
  by (simp add: natOfDigits_def)

lemma of_char_digitChar: "d < 10 \<Longrightarrow> (of_char (digitChar d) :: nat) = 48 + d"
  by (simp add: digitChar_def)

lemma isDigit_digitChar: "d < 10 \<Longrightarrow> isDigit (digitChar d)"
  by (simp add: isDigit_def of_char_digitChar)

lemma digits10_isDigit: "c \<in> set (digits10 n) \<Longrightarrow> isDigit c"
proof (induction n arbitrary: c rule: digits10.induct)
  case (1 n)
  show ?case
  proof (cases "n < 10")
    case True
    with "1.prems" show ?thesis
      by (simp add: digits10.simps [of n] isDigit_digitChar)
  next
    case False
    with "1.prems" "1.IH" show ?thesis
      by (auto simp: digits10.simps [of n] isDigit_digitChar)
  qed
qed

lemma natOfDigits_digits10: "natOfDigits (digits10 n) = n"
proof (induction n rule: digits10.induct)
  case (1 n)
  show ?case
  proof (cases "n < 10")
    case True
    then show ?thesis
      by (simp add: digits10.simps [of n] natOfDigits_def of_char_digitChar)
  next
    case False
    with "1.IH" show ?thesis
      by (simp add: digits10.simps [of n] natOfDigits_snoc of_char_digitChar)
  qed
qed

lemma digits10_not_Nil: "digits10 n \<noteq> []"
  by (simp add: digits10.simps [of n])

lemma digitChar_zero: "d < 10 \<Longrightarrow> digitChar d = CHR ''0'' \<Longrightarrow> d = 0"
proof -
  assume d10: "d < 10" and z: "digitChar d = CHR ''0''"
  from d10 have "(of_char (digitChar d) :: nat) = 48 + d"
    by (rule of_char_digitChar)
  then have "(of_char (CHR ''0'') :: nat) = 48 + d"
    by (simp only: z)
  then show "d = 0" by simp
qed

lemma digits10_no_leading_zero: "1 < length (digits10 n) \<Longrightarrow> hd (digits10 n) \<noteq> CHR ''0''"
proof (induction n rule: digits10.induct)
  case (1 n)
  show ?case
  proof (cases "n < 10")
    case True
    with "1.prems" show ?thesis
      by (simp add: digits10.simps [of n])
  next
    case False
    show ?thesis
    proof (cases "n div 10 < 10")
      case True
      with False have pos: "0 < n div 10" by simp
      with True have "digitChar (n div 10) \<noteq> CHR ''0''"
        using digitChar_zero [of "n div 10"] by auto
      with True False show ?thesis
        by (simp add: digits10.simps [of n] digits10.simps [of "n div 10"])
    next
      case False2: False
      then have "1 < length (digits10 (n div 10))"
        by (simp add: digits10.simps [of "n div 10"] digits10_not_Nil)
      with "1.IH" False have "hd (digits10 (n div 10)) \<noteq> CHR ''0''" by simp
      with False show ?thesis
        by (simp add: digits10.simps [of n] digits10_not_Nil)
    qed
  qed
qed

lemma digits10_leading_zero: "hd (digits10 n) = CHR ''0'' \<Longrightarrow> digits10 n = ''0''"
proof -
  assume z: "hd (digits10 n) = CHR ''0''"
  with digits10_no_leading_zero [of n] have short: "\<not> 1 < length (digits10 n)"
    by blast
  have "n < 10"
  proof (rule ccontr)
    assume "\<not> n < 10"
    then have "1 < length (digits10 n)"
      by (simp add: digits10.simps [of n] digits10_not_Nil)
    with short show False by simp
  qed
  then have one: "digits10 n = [digitChar n]"
    by (simp add: digits10.simps [of n])
  with z have "digitChar n = CHR ''0''"
    by simp
  with one show ?thesis
    by simp
qed

lemma takeWhile_digits10:
  "\<not> isDigit c \<Longrightarrow> takeWhile isDigit (digits10 n @ c # r) = digits10 n"
  by (simp add: takeWhile_append2 digits10_isDigit)

lemma dropWhile_digits10:
  "\<not> isDigit c \<Longrightarrow> dropWhile isDigit (digits10 n @ c # r) = c # r"
  by (simp add: dropWhile_append2 digits10_isDigit)

lemma hd_digits10_isDigit: "isDigit (hd (digits10 n))"
proof -
  have "hd (digits10 n) \<in> set (digits10 n)"
    by (simp add: digits10_not_Nil)
  then show ?thesis
    by (rule digits10_isDigit)
qed

lemma hd_digits10_not_minus: "hd (digits10 n) \<noteq> CHR ''-''"
  using hd_digits10_isDigit [of n] by (auto simp: isDigit_def)

lemma intPart_digits10: "intPart (digits10 n @ CHR ''}'' # r) = Some (digits10 n, CHR ''}'' # r)"
proof -
  have nd: "\<not> isDigit (CHR ''}'')"
    by (simp add: isDigit_def)
  obtain d ds where split: "digits10 n = d # ds"
    using digits10_not_Nil [of n] by (cases "digits10 n") auto
  have dig: "isDigit d"
    using hd_digits10_isDigit [of n] split by simp
  show ?thesis
  proof (cases "d = CHR ''0''")
    case True
    with split have "digits10 n = ''0''"
      using digits10_leading_zero [of n] by simp
    then show ?thesis
      by (simp add: intPart_def isDigit_def)
  next
    case False
    have "intPart ((d # ds) @ CHR ''}'' # r) =
        Some (takeWhile isDigit ((d # ds) @ CHR ''}'' # r),
              dropWhile isDigit ((d # ds) @ CHR ''}'' # r))"
      using False dig by (simp add: intPart_def)
    then show ?thesis
      using takeWhile_digits10 [OF nd, of n r] dropWhile_digits10 [OF nd, of n r]
      by (simp only: split [symmetric])
  qed
qed

lemma parse_number_Number_toString:
  "parse_number (Number_toString i @ CHR ''}'' # r) = Some (Some i, CHR ''}'' # r)"
proof -
  have tail: "fracPart (CHR ''}'' # r) = Some (False, CHR ''}'' # r)"
    "expPart (CHR ''}'' # r) = Some (False, CHR ''}'' # r)"
    by (simp_all add: fracPart_def expPart_def)
  show ?thesis
  proof (cases "i < 0")
    case True
    then show ?thesis
      by (simp add: parse_number_def Number_toString_def intPart_digits10 tail
          natOfDigits_digits10)
  next
    case False
    then show ?thesis
      using hd_digits10_not_minus [of "nat i"]
      by (simp add: parse_number_def Number_toString_def intPart_digits10 tail
          natOfDigits_digits10 digits10_not_Nil)
  qed
qed

lemma isDigit_neq: "isDigit c \<Longrightarrow> (of_char d :: nat) < 48 \<or> 57 < (of_char d :: nat) \<Longrightarrow> c \<noteq> d"
  by (auto simp: isDigit_def)

lemma plain_start:
  assumes "c = CHR ''-'' \<or> isDigit c"
  shows "\<not> isJsonWs c \<and> structural c = None \<and> c \<noteq> CHR 0x22"
proof (cases "c = CHR ''-''")
  case True
  then show ?thesis
    by (simp add: isJsonWs_def structural_def)
next
  case False
  with assms have d: "isDigit c" by simp
  have "c \<noteq> CHR '' ''" "c \<noteq> CHR 0x09" "c \<noteq> CHR 0x0A" "c \<noteq> CHR 0x0D"
    "c \<noteq> CHR ''{''" "c \<noteq> CHR ''}''" "c \<noteq> CHR ''[''" "c \<noteq> CHR '']''"
    "c \<noteq> CHR '':''" "c \<noteq> CHR '',''" "c \<noteq> CHR 0x22"
    by (rule isDigit_neq [OF d], simp)+
  then show ?thesis
    by (simp add: isJsonWs_def structural_def)
qed

lemma Number_toString_start:
  "\<exists>c cs. Number_toString i = c # cs \<and> (c = CHR ''-'' \<or> isDigit c)"
proof (cases "i < 0")
  case True
  then show ?thesis
    by (simp add: Number_toString_def)
next
  case False
  obtain d ds where "digits10 (nat i) = d # ds"
    using digits10_not_Nil [of "nat i"] by (cases "digits10 (nat i)") auto
  with False hd_digits10_isDigit [of "nat i"] show ?thesis
    by (simp add: Number_toString_def)
qed

lemma tokens_number:
  "tokens (Number_toString i @ CHR ''}'' # r) =
     map_option (Cons (TNumber (Some i))) (tokens (CHR ''}'' # r))"
proof -
  obtain c cs where split: "Number_toString i = c # cs" and start: "c = CHR ''-'' \<or> isDigit c"
    using Number_toString_start by blast
  have "parse_number (c # cs @ CHR ''}'' # r) = Some (Some i, CHR ''}'' # r)"
    using parse_number_Number_toString [of i r] split by simp
  with plain_start [OF start] start show ?thesis
    by (simp add: split tokens.simps(2))
qed

lemma tokens_quoted:
  "tokens (QuoteJSONString s @ r) = map_option (Cons (TString (map of_char s))) (tokens r)"
  by (simp add: QuoteJSONString_def tokens.simps(2) isJsonWs_def structural_def
      parse_chars_quoted)

lemma tokens_stringify_ad:
  "tokens r = Some ts \<Longrightarrow> tokens (stringify_ad a @ r) = Some (adTokens a @ ts)"
  by (simp add: stringify_ad_def adTokens_def tokens.simps(2) isJsonWs_def structural_def
      tokens_quoted tokens_number)

lemma tokens_elements:
  "tokens r = Some ts \<Longrightarrow>
   tokens (stringifyElements (a # as) @ CHR '']'' # r) = Some (elemTokens (a # as) @ RBracket # ts)"
proof (induction as arbitrary: a)
  case Nil
  then have "tokens (CHR '']'' # r) = Some (RBracket # ts)"
    by (simp add: tokens.simps(2) isJsonWs_def structural_def)
  then show ?case
    by (simp add: tokens_stringify_ad)
next
  case (Cons b bs)
  from Cons.IH [OF Cons.prems, of b]
  have "tokens (CHR '','' # stringifyElements (b # bs) @ CHR '']'' # r) =
      Some (Comma # elemTokens (b # bs) @ RBracket # ts)"
    by (simp add: tokens.simps(2) isJsonWs_def structural_def)
  then show ?case
    using tokens_stringify_ad [of "CHR '','' # stringifyElements (b # bs) @ CHR '']'' # r"
        "Comma # elemTokens (b # bs) @ RBracket # ts" a]
    by simp
qed

lemma tokens_JSON_stringify:
  "tokens (JSON_stringify ads) = Some (LBracket # elemTokens ads @ [RBracket])"
proof (cases ads)
  case Nil
  then show ?thesis
    by (simp add: JSON_stringify_def tokens.simps(2) isJsonWs_def structural_def)
next
  case (Cons a as)
  have "tokens (stringifyElements (a # as) @ CHR '']'' # []) = Some (elemTokens (a # as) @ RBracket # [])"
    by (rule tokens_elements) simp
  with Cons show ?thesis
    by (simp add: JSON_stringify_def tokens.simps(2) isJsonWs_def structural_def)
qed


lemma accepts_adTokens:
  "e = Value \<or> e = ValueOrClose \<Longrightarrow>
   accepts e st (adTokens a @ rest) = accepts CommaOrClose st rest"
  by (auto simp: adTokens_def advance_def openValue_def keyToken_def isScalar_def)

lemma accepts_elements:
  "e = Value \<or> e = ValueOrClose \<Longrightarrow>
   accepts e (InArray # st) (elemTokens (a # as) @ RBracket # rest) = accepts CommaOrClose st rest"
proof (induction as arbitrary: a e)
  case Nil
  then show ?case
    by (simp add: accepts_adTokens advance_def)
next
  case (Cons b bs)
  have "accepts Value (InArray # st) (elemTokens (b # bs) @ RBracket # rest) =
      accepts CommaOrClose st rest"
    by (rule Cons.IH) simp
  with Cons.prems show ?case
    by (simp add: accepts_adTokens advance_def)
qed

lemma wellFormed_elemTokens: "wellFormed (LBracket # elemTokens ads @ [RBracket])"
proof (cases ads)
  case Nil
  then show ?thesis
    by (simp add: wellFormed_def advance_def openValue_def isScalar_def)
next
  case (Cons a as)
  have "accepts ValueOrClose (InArray # []) (elemTokens (a # as) @ RBracket # []) =
      accepts CommaOrClose [] []"
    by (rule accepts_elements) simp
  with Cons show ?thesis
    by (simp add: wellFormed_def advance_def openValue_def isScalar_def)
qed

lemma takeString_codes: "takeString (TString (map of_char s) # r) = Some (s, r)"
proof -
  have "list_all (\<lambda>n. n < (256::nat)) (map of_char s)"
    by (simp add: list_all_iff of_char_less_256)
  moreover have "map char_of (map (of_char :: char \<Rightarrow> nat) s) = s"
    by (simp add: comp_def)
  ultimately show ?thesis
    by (simp add: takeString_def)
qed

lemma expectKey_codes: "cs = map of_char k \<Longrightarrow> expectKey k (TString cs # Colon # r) = Some r"
  by (simp add: expectKey_def takeString_codes expectToken_def)

lemma read_ad_adTokens: "read_ad (adTokens a @ rest) = Some (a, rest)"
  by (simp add: read_ad_def adTokens_def expectToken_def expectKey_codes takeString_codes
      takeInteger_def)

lemma read_elements_elemTokens:
  "read_elements (elemTokens (a # as) @ RBracket # rest) = Some (a # as, rest)"
proof (induction as arbitrary: a)
  case Nil
  show ?case
    by (subst read_elements.simps) (simp add: read_ad_adTokens)
next
  case (Cons b bs)
  show ?case
    by (subst read_elements.simps) (simp add: read_ad_adTokens Cons.IH)
qed

lemma elemTokens_start: "\<exists>ts. elemTokens (a # as) = LBrace # ts"
  by (cases as) (simp_all add: adTokens_def)

lemma readAdvertisements_elemTokens:
  "readAdvertisements (LBracket # elemTokens ads @ [RBracket]) = Some ads"
proof (cases ads)
  case Nil
  then show ?thesis
    by (simp add: readAdvertisements_def)
next
  case (Cons a as)
  obtain ts where start: "elemTokens (a # as) = LBrace # ts"
    using elemTokens_start by blast
  have "read_elements (elemTokens (a # as) @ RBracket # []) = Some (a # as, [])"
    by (rule read_elements_elemTokens)
  with Cons start show ?thesis
    by (simp add: readAdvertisements_def)
qed

lemma JSON_parse_stringify: "JSON_parse (JSON_stringify ads) = Advertisements ads"
  by (simp add: JSON_parse_def tokens_JSON_stringify wellFormed_elemTokens
      readAdvertisements_elemTokens)

lemma JSON_stringify_not_Nil: "JSON_stringify ads \<noteq> []"
  by (simp add: JSON_stringify_def)

text \<open>Different numbers have different decimal texts.\<close>

lemma Number_toString_inject: "Number_toString a = Number_toString b \<longleftrightarrow> a = b"
proof
  assume eq: "Number_toString a = Number_toString b"
  have "parse_number (Number_toString a @ ''}'') = parse_number (Number_toString b @ ''}'')"
    by (simp only: eq)
  then have "Some (Some a, ''}'') = Some (Some b, ''}'')"
    by (simp only: parse_number_Number_toString)
  then show "a = b"
    by simp
next
  assume "a = b"
  then show "Number_toString a = Number_toString b" by simp
qed

section \<open>What the operations do to the state\<close>

lemma includes_str_sublist: "includes_str s q \<longleftrightarrow> sublist q s"
  by (simp add: includes_str_iff sublist_def)

lemma advertisements_add:
  "advertisements (addAdvertisement writeOk now1 now2 img d u s) =
     (if writeOk
      then \<lparr>id_ad = Number_toString now1, imageUri = img, description = d, url = u,
            createdAt = now2\<rparr> # advertisements s
      else advertisements s)"
  by (simp add: addAdvertisement_def saveAdvertisements_def Let_def)

lemma storage_add:
  "storage (addAdvertisement writeOk now1 now2 img d u s) =
     (if writeOk
      then Some (JSON_stringify
        (\<lparr>id_ad = Number_toString now1, imageUri = img, description = d, url = u,
          createdAt = now2\<rparr> # advertisements s))
      else storage s)"
  by (simp add: addAdvertisement_def saveAdvertisements_def Let_def)

lemma alerts_add:
  "alerts (addAdvertisement writeOk now1 now2 img d u s) =
     (if writeOk then alerts s @ [AlertAdded] else alerts s @ [AlertSaveFailed, AlertAdded])"
  by (simp add: addAdvertisement_def saveAdvertisements_def Let_def)

lemma currentScreen_add:
  "currentScreen (addAdvertisement writeOk now1 now2 img d u s) = Home"
  by (simp add: addAdvertisement_def saveAdvertisements_def Let_def)

lemma advertisements_delete:
  "advertisements (deleteAdvertisement confirm writeOk i s) =
     (if confirm \<and> writeOk then filter (\<lambda>ad. id_ad ad \<noteq> i) (advertisements s)
      else advertisements s)"
  by (simp add: deleteAdvertisement_def saveAdvertisements_def Let_def)

lemma storage_delete:
  "storage (deleteAdvertisement confirm writeOk i s) =
     (if confirm \<and> writeOk
      then Some (JSON_stringify (filter (\<lambda>ad. id_ad ad \<noteq> i) (advertisements s)))
      else storage s)"
  by (simp add: deleteAdvertisement_def saveAdvertisements_def Let_def)

lemma currentScreen_delete:
  "currentScreen (deleteAdvertisement confirm writeOk i s) =
     (if confirm then Home else currentScreen s)"
  by (simp add: deleteAdvertisement_def saveAdvertisements_def Let_def)

lemma alerts_delete:
  "alerts (deleteAdvertisement confirm writeOk i s) =
     (if \<not> confirm then alerts s @ [AlertConfirmDelete]
      else if writeOk then alerts s @ [AlertConfirmDelete, AlertDeleted]
      else alerts s @ [AlertConfirmDelete, AlertSaveFailed, AlertDeleted])"
  by (simp add: deleteAdvertisement_def saveAdvertisements_def Let_def)

text \<open>
  An add whose clock reading differs from the readings behind the ids already stored
  keeps the ids distinct.
\<close>

lemma fresh_reading_keeps_ids_distinct:
  assumes "distinct (map id_ad (advertisements s))"
    and "Number_toString t \<notin> id_ad ` set (advertisements s)"
  shows "distinct (map id_ad (advertisements (addAdvertisement writeOk t t' img d u s)))"
  using assms by (simp add: advertisements_add)

lemma load_after_restart:
  "storage s = Some (JSON_stringify ads) \<Longrightarrow>
   loadAdvertisements True (restart s) =
     Loaded ((restart s)\<lparr>advertisements := ads, loading := False\<rparr>)"
  by (simp add: loadAdvertisements_def restart_def initialState_def JSON_stringify_not_Nil
      JSON_parse_stringify)

section \<open>Facts about the examples\<close>

lemma trim_examples: "trim ''Job'' = ''Job''" "trim ''http://a'' = ''http://a''"
  by code_simp+

lemma JSON_parse_examples:
  \<open>JSON_parse ''[{"id":'' = SyntaxError\<close>
  \<open>JSON_parse ''[]'' = Advertisements []\<close>
  \<open>JSON_parse ''null'' = OtherValue\<close>
  by code_simp+

text \<open>
  More texts: values of other shapes and records with the keys in another order are
  returned as other values; white space between tokens does not matter; a trailing
  comma, a leading zero and an unquoted word are syntax errors.
\<close>

lemma JSON_parse_more_examples:
  \<open>JSON_parse ''{}'' = OtherValue\<close>
  \<open>JSON_parse ''5'' = OtherValue\<close>
  \<open>JSON_parse ''[1]'' = OtherValue\<close>
  \<open>JSON_parse ''[ ]'' = Advertisements []\<close>
  \<open>JSON_parse ''[ {"id" : "1", "imageUri":"img1", "description":"Job A", "url":"http://a",
       "createdAt": 1 } ]'' = Advertisements [jobA]\<close>
  \<open>JSON_parse ''[{"imageUri":"img1","id":"1","description":"Job A","url":"http://a","createdAt":1}]''
     = OtherValue\<close>
  \<open>JSON_parse ''[1,]'' = SyntaxError\<close>
  \<open>JSON_parse ''01'' = SyntaxError\<close>
  \<open>JSON_parse ''nonsense'' = SyntaxError\<close>
  by code_simp+

lemma trim_blank: "trim [CHR '' '', CHR 0x09, CHR '' ''] = []" "trim [] = []"
  by (simp_all add: trim_def isWhiteSpace_def)

lemma sampleAd_1_id: "id_ad (sampleAd 1) = ''1''"
  by code_simp

lemma search_examples:
  "formatDate 0 (createdAt exampleAd) = ''12.03.2024 09:00''"
  "filteredAdvertisements (formatDate 0) ''react'' [exampleAd] = [exampleAd]"
  "filteredAdvertisements (formatDate 0) ''JOB1'' [exampleAd] = [exampleAd]"
  "filteredAdvertisements (formatDate 0) ''12.03.2024'' [exampleAd] = [exampleAd]"
  "filteredAdvertisements (formatDate 0) ''golang'' [exampleAd] = []"
  by code_simp+

lemma job1_facts:
  "trim ''JOB1'' \<noteq> []"
  "includes_str (toLowerCase (url exampleAd)) (toLowerCase ''JOB1'')"
  "\<not> includes_str (toLowerCase (description exampleAd)) (toLowerCase ''JOB1'')"
  "\<not> includes_str (formatDate 0 (createdAt exampleAd)) (toLowerCase ''JOB1'')"
  by code_simp+

lemma two_spaces_facts:
  "exampleAd \<in> set (filteredAdvertisements (formatDate 0) ''  '' [exampleAd])"
  "\<not> includes_str (toLowerCase (description exampleAd)) (toLowerCase ''  '')"
  "\<not> includes_str (toLowerCase (url exampleAd)) (toLowerCase ''  '')"
  "\<not> includes_str (formatDate 0 (createdAt exampleAd)) (toLowerCase ''  '')"
  by code_simp+

lemma scenario_examples:
  "filteredAdvertisements (formatDate 0) ''job a'' [jobB, jobA] = [jobA]"
  "filteredAdvertisements (formatDate 0) ''JOB'' [jobB, jobA] = [jobB, jobA]"
  "filteredAdvertisements (formatDate 0) ''http://a'' [sampleAd 2, exampleAd, sampleAd 1] =
     [sampleAd 2, sampleAd 1]"
  "filteredAdvertisements (formatDate 0) ''golang'' [jobB, jobA] = []"
  by code_simp+

section \<open>The claims\<close>

subsection \<open>Capacity\<close>

text \<open>
  Claim C1.  The limit of five is checked by \<open>handleAddPress\<close> only, against the list as
  it is when the add button is pressed; \<open>addAdvertisement\<close> has no check.  The add button
  is there while the initial load is pending, when the list is still empty.  So over a
  slot that holds five advertisements: the press opens the form, the load then installs
  the five, and the save stores a sixth.  Likewise \<open>addAdvertisement\<close> on a full store
  stores a sixth record.
\<close>

theorem add_while_loading_stores_sixth:
  "handleAddPress mountedOverFive = mountedOverFive\<lparr>currentScreen := Add\<rparr>
   \<and> loadAdvertisements True (mountedOverFive\<lparr>currentScreen := Add\<rparr>) =
       Loaded (mountedOverFive\<lparr>currentScreen := Add, advertisements := fiveAds,
                 loading := False\<rparr>)
   \<and> advertisements
        (handleSave True 6 6 ''file:///cache/img.png'' ''Job'' ''http://a''
          (mountedOverFive\<lparr>currentScreen := Add, advertisements := fiveAds,
             loading := False\<rparr>)) = sampleAd 6 # fiveAds
   \<and> length (advertisements
        (handleSave True 6 6 ''file:///cache/img.png'' ''Job'' ''http://a''
          (mountedOverFive\<lparr>currentScreen := Add, advertisements := fiveAds,
             loading := False\<rparr>))) = 6
   \<and> length (advertisements
        (addAdvertisement True 6 6 ''file:///cache/img.png'' ''Job'' ''http://a'' fullState)) = 6"
proof -
  have press: "handleAddPress mountedOverFive = mountedOverFive\<lparr>currentScreen := Add\<rparr>"
    by (simp add: handleAddPress_def mountedOverFive_def initialState_def)
  have load: "loadAdvertisements True (mountedOverFive\<lparr>currentScreen := Add\<rparr>) =
       Loaded (mountedOverFive\<lparr>currentScreen := Add, advertisements := fiveAds,
                 loading := False\<rparr>)"
    by (simp add: loadAdvertisements_def mountedOverFive_def initialState_def
        JSON_stringify_not_Nil JSON_parse_stringify)
  have save: "advertisements
        (handleSave True 6 6 ''file:///cache/img.png'' ''Job'' ''http://a''
          (mountedOverFive\<lparr>currentScreen := Add, advertisements := fiveAds,
             loading := False\<rparr>)) = sampleAd 6 # fiveAds"
    by (simp add: handleSave_def trim_examples advertisements_add sampleAd_def)
  have five: "length fiveAds = 5"
    by (simp add: fiveAds_def)
  have direct: "length (advertisements
        (addAdvertisement True 6 6 ''file:///cache/img.png'' ''Job'' ''http://a'' fullState)) = 6"
    by (simp add: advertisements_add fullState_def five)
  from press load save five direct show ?thesis
    by simp
qed

subsection \<open>Ids\<close>

text \<open>
  Claim C2.  The id is the decimal text of the first clock reading, so two adds that
  read the same millisecond give two records with the same id: the ids of the store are
  then not distinct.
\<close>

theorem same_clock_reading_same_id:
  "map id_ad (advertisements
     (addAdvertisement True t b2 imgB dB uB (addAdvertisement True t a2 imgA dA uA s))) =
     Number_toString t # Number_toString t # map id_ad (advertisements s)
   \<and> \<not> distinct (map id_ad (advertisements
     (addAdvertisement True t b2 imgB dB uB (addAdvertisement True t a2 imgA dA uA s))))"
  by (simp add: advertisements_add)

subsection \<open>A failed write\<close>

text \<open>
  Claim C3.  When the durable write of an add fails, the in-memory list after the call is
  the list from before the call, and so is the slot; the user is told of the failure.
  For either outcome of the write the list and the slot change together or not at all:
  the list is replaced only after the write has gone through.
\<close>

theorem add_write_failure_keeps_list:
  "advertisements (addAdvertisement False now1 now2 img d u s) = advertisements s
   \<and> storage (addAdvertisement False now1 now2 img d u s) = storage s
   \<and> alerts (addAdvertisement False now1 now2 img d u s) = alerts s @ [AlertSaveFailed, AlertAdded]
   \<and> (advertisements (addAdvertisement writeOk now1 now2 img d u s),
      storage (addAdvertisement writeOk now1 now2 img d u s)) =
     (if writeOk
      then (\<lparr>id_ad = Number_toString now1, imageUri = img, description = d, url = u,
              createdAt = now2\<rparr> # advertisements s,
            Some (JSON_stringify
              (\<lparr>id_ad = Number_toString now1, imageUri = img, description = d, url = u,
                createdAt = now2\<rparr> # advertisements s)))
      else (advertisements s, storage s))"
  by (simp add: advertisements_add storage_add alerts_add)

subsection \<open>Loading\<close>

text \<open>
  Claim C4, as amended.  The load at start-up, from the initial state (empty list,
  nothing shown, nothing logged).  With no slot, or an empty text in it, the list stays
  empty and nothing is logged.  When the read is rejected, or \<^verbatim>\<open>JSON.parse\<close> throws, the
  list stays empty and the failure is logged with \<^verbatim>\<open>console.error\<close>: it is not raised,
  and it is not handed to the caller either, the result being an ordinary state.  When
  the text is that of a list, the list is installed.  On each of these paths \<open>loading\<close>
  is cleared and nothing is shown to the user.
\<close>

theorem load_logs_failure_and_clears_loading:
  "advertisements (initialState slot) = []
   \<and> alerts (initialState slot) = []
   \<and> console (initialState slot) = []
   \<and> loadAdvertisements True (initialState None) = Loaded ((initialState None)\<lparr>loading := False\<rparr>)
   \<and> loadAdvertisements True (initialState (Some [])) =
       Loaded ((initialState (Some []))\<lparr>loading := False\<rparr>)
   \<and> loadAdvertisements False (initialState slot) =
       Loaded ((initialState slot)\<lparr>console := [LoadError], loading := False\<rparr>)
   \<and> (stored \<noteq> [] \<and> JSON_parse stored = SyntaxError \<longrightarrow>
        loadAdvertisements True (initialState (Some stored)) =
        Loaded ((initialState (Some stored))\<lparr>console := [LoadError], loading := False\<rparr>))
   \<and> (stored \<noteq> [] \<and> JSON_parse stored = Advertisements ads \<longrightarrow>
        loadAdvertisements True (initialState (Some stored)) =
        Loaded ((initialState (Some stored))\<lparr>advertisements := ads, loading := False\<rparr>))
   \<and> (loadAdvertisements readOk (initialState slot) = Loaded s' \<longrightarrow>
        loading s' = False \<and> alerts s' = [])"
proof -
  have ends: "loading s' = False \<and> alerts s' = []"
    if "loadAdvertisements readOk (initialState slot) = Loaded s'"
    using that
    by (auto simp: loadAdvertisements_def initialState_def Let_def
        split: if_splits option.splits parsed.splits)
  then show ?thesis
    by (simp add: loadAdvertisements_def initialState_def)
qed

text \<open>
  A truncated text in the slot is a syntax error: the list stays empty and the error is
  logged.  The text of the empty list is installed.  A rejected read ends with \<open>loading\<close>
  cleared.
\<close>

theorem load_logs_failure_and_clears_loading_witness:
  \<open>''[{"id":'' \<noteq> [] \<and> JSON_parse ''[{"id":'' = SyntaxError
   \<and> loadAdvertisements True (initialState (Some ''[{"id":'')) =
       Loaded ((initialState (Some ''[{"id":''))\<lparr>console := [LoadError], loading := False\<rparr>)
   \<and> ''[]'' \<noteq> [] \<and> JSON_parse ''[]'' = Advertisements []
   \<and> loadAdvertisements True (initialState (Some ''[]'')) =
       Loaded ((initialState (Some ''[]''))\<lparr>advertisements := [], loading := False\<rparr>)
   \<and> loadAdvertisements False (initialState None) =
       Loaded ((initialState None)\<lparr>console := [LoadError], loading := False\<rparr>)
   \<and> loading ((initialState None)\<lparr>console := [LoadError], loading := False\<rparr>) = False
   \<and> alerts ((initialState None)\<lparr>console := [LoadError], loading := False\<rparr>) = []\<close>
proof -
  note a = load_logs_failure_and_clears_loading
    [of \<open>Some ''[{"id":''\<close> \<open>''[{"id":''\<close> \<open>[]\<close> True]
  note b = load_logs_failure_and_clears_loading [of \<open>Some ''[]''\<close> \<open>''[]''\<close> \<open>[]\<close> True]
  note c = load_logs_failure_and_clears_loading
    [of None \<open>''[]''\<close> \<open>[]\<close> False
      \<open>(initialState None)\<lparr>console := [LoadError], loading := False\<rparr>\<close>]
  from a b c JSON_parse_examples show ?thesis
    by simp
qed

text \<open>
  The claim as stated fails in two ways.  A slot that holds \<^verbatim>\<open>null\<close> is no list of
  advertisements, yet \<^verbatim>\<open>JSON.parse\<close> returns and the value is installed as it is: no
  fall-back to the empty list, nothing logged.  And after a rejected read the caller is
  handed nothing: the result is an ordinary state, with the console entry as the only
  trace and no alert.
\<close>

theorem load_counterexample:
  "JSON_parse ''null'' = OtherValue
   \<and> loadAdvertisements True (initialState (Some ''null'')) = Unmodelled
   \<and> loadAdvertisements True (initialState (Some ''null'')) \<noteq>
       Loaded ((initialState (Some ''null''))\<lparr>console := [LoadError], loading := False\<rparr>)
   \<and> loadAdvertisements False (initialState None) =
       Loaded ((initialState None)\<lparr>console := [LoadError], loading := False\<rparr>)
   \<and> alerts ((initialState None)\<lparr>console := [LoadError], loading := False\<rparr>) = []"
  by (simp add: loadAdvertisements_def initialState_def JSON_parse_examples)

subsection \<open>Order\<close>

text \<open>
  Claim C5.  A successful add puts the new record at index 0 and leaves the records that
  were there behind it, in their order.  After adding \<open>A\<close> and then \<open>B\<close> the state lists
  \<open>B\<close> before \<open>A\<close>, and so does the list that a load after a restart reads from the slot.
\<close>

theorem add_prepends_newest_first:
  "advertisements (addAdvertisement True a1 a2 imgA dA uA s) =
     \<lparr>id_ad = Number_toString a1, imageUri = imgA, description = dA, url = uA,
       createdAt = a2\<rparr> # advertisements s
   \<and> advertisements
       (addAdvertisement True b1 b2 imgB dB uB (addAdvertisement True a1 a2 imgA dA uA s)) =
     \<lparr>id_ad = Number_toString b1, imageUri = imgB, description = dB, url = uB,
       createdAt = b2\<rparr> #
     \<lparr>id_ad = Number_toString a1, imageUri = imgA, description = dA, url = uA,
       createdAt = a2\<rparr> # advertisements s
   \<and> loadAdvertisements True (restart
       (addAdvertisement True b1 b2 imgB dB uB (addAdvertisement True a1 a2 imgA dA uA s))) =
     Loaded ((restart
       (addAdvertisement True b1 b2 imgB dB uB (addAdvertisement True a1 a2 imgA dA uA s)))
       \<lparr>advertisements :=
          \<lparr>id_ad = Number_toString b1, imageUri = imgB, description = dB, url = uB,
            createdAt = b2\<rparr> #
          \<lparr>id_ad = Number_toString a1, imageUri = imgA, description = dA, url = uA,
            createdAt = a2\<rparr> # advertisements s,
        loading := False\<rparr>)"
proof -
  let ?s1 = "addAdvertisement True a1 a2 imgA dA uA s"
  let ?s2 = "addAdvertisement True b1 b2 imgB dB uB ?s1"
  have "storage ?s2 = Some (JSON_stringify (advertisements ?s2))"
    by (simp add: storage_add advertisements_add)
  then have "loadAdvertisements True (restart ?s2) =
      Loaded ((restart ?s2)\<lparr>advertisements := advertisements ?s2, loading := False\<rparr>)"
    by (rule load_after_restart)
  then show ?thesis
    by (simp add: advertisements_add)
qed

subsection \<open>What the search matches\<close>

text \<open>
  Claim C6, as amended.  For a query that is not blank (not empty after trimming), a
  record is in the result exactly when it is in the list and the lower-cased query
  occurs in its lower-cased description, in its lower-cased link, or in the rendering of
  its creation time, whatever renderer \<open>f\<close> the platform supplies.  With the rendering
  \<open>DD.MM.YYYY HH:MM\<close> of the spec, the example record (created 12.03.2024 09:00) is found by
  \<open>react\<close>, \<open>JOB1\<close> and \<open>12.03.2024\<close> and not by \<open>golang\<close>.
\<close>

theorem search_matches_substring:
  "(trim q \<noteq> [] \<longrightarrow>
      (a \<in> set (filteredAdvertisements f q ads) \<longleftrightarrow>
         a \<in> set ads
         \<and> (sublist (toLowerCase q) (toLowerCase (description a))
            \<or> sublist (toLowerCase q) (toLowerCase (url a))
            \<or> sublist (toLowerCase q) (f (createdAt a)))))
   \<and> formatDate 0 (createdAt exampleAd) = ''12.03.2024 09:00''
   \<and> filteredAdvertisements (formatDate 0) ''react'' [exampleAd] = [exampleAd]
   \<and> filteredAdvertisements (formatDate 0) ''JOB1'' [exampleAd] = [exampleAd]
   \<and> filteredAdvertisements (formatDate 0) ''12.03.2024'' [exampleAd] = [exampleAd]
   \<and> filteredAdvertisements (formatDate 0) ''golang'' [exampleAd] = []"
proof -
  have "a \<in> set (filteredAdvertisements f q ads) \<longleftrightarrow>
         a \<in> set ads
         \<and> (sublist (toLowerCase q) (toLowerCase (description a))
            \<or> sublist (toLowerCase q) (toLowerCase (url a))
            \<or> sublist (toLowerCase q) (f (createdAt a)))"
    if "trim q \<noteq> []"
    using that
    by (simp add: filteredAdvertisements_def matchesQuery_def includes_str_sublist Let_def)
  with search_examples show ?thesis
    by blast
qed

text \<open>The query \<open>JOB1\<close> is not blank and finds the example record through its link alone.\<close>

theorem search_matches_substring_witness:
  "trim ''JOB1'' \<noteq> []
   \<and> exampleAd \<in> set (filteredAdvertisements (formatDate 0) ''JOB1'' [exampleAd])
   \<and> sublist (toLowerCase ''JOB1'') (toLowerCase (url exampleAd))
   \<and> \<not> sublist (toLowerCase ''JOB1'') (toLowerCase (description exampleAd))
   \<and> \<not> sublist (toLowerCase ''JOB1'') (formatDate 0 (createdAt exampleAd))"
  using search_matches_substring [of "''JOB1''" exampleAd "formatDate 0" "[exampleAd]"]
    job1_facts
  by (simp add: includes_str_sublist)

text \<open>
  The claim as stated fails for a query that is not empty but blank: two spaces occur in
  none of the three texts of the example record, and yet the record is in the result.
\<close>

theorem search_blank_query_counterexample:
  "''  '' \<noteq> []
   \<and> exampleAd \<in> set (filteredAdvertisements (formatDate 0) ''  '' [exampleAd])
   \<and> \<not> sublist (toLowerCase ''  '') (toLowerCase (description exampleAd))
   \<and> \<not> sublist (toLowerCase ''  '') (toLowerCase (url exampleAd))
   \<and> \<not> sublist (toLowerCase ''  '') (formatDate 0 (createdAt exampleAd))"
  using two_spaces_facts
  by (simp add: includes_str_sublist)

subsection \<open>The search as a filter\<close>

text \<open>
  Claim C7.  A query that is empty or blank gives back the whole list.  For every query
  the result is the list with the records that do not match left out, in the order of
  the list, where a record matches when the query is blank or the lower-cased query
  occurs in its lower-cased description, its lower-cased link or the rendering of its
  creation time.  The search reads the in-memory list only: its result is a list, no
  state, and it is the same whatever the slot holds.  In the spec's scenario the query
  \<open>job a\<close> over the list of \<open>B\<close> and \<open>A\<close> gives \<open>A\<close> alone, and a query that both
  match gives \<open>B\<close> before \<open>A\<close>.
\<close>

theorem search_keeps_exactly_the_matches:
  "(trim q = [] \<longrightarrow> filteredAdvertisements f q ads = ads)
   \<and> filteredAdvertisements f q ads =
       filter (\<lambda>a. trim q = []
                \<or> sublist (toLowerCase q) (toLowerCase (description a))
                \<or> sublist (toLowerCase q) (toLowerCase (url a))
                \<or> sublist (toLowerCase q) (f (createdAt a))) ads
   \<and> subseq (filteredAdvertisements f q ads) ads
   \<and> search f q s =
       filter (\<lambda>a. trim q = []
                \<or> sublist (toLowerCase q) (toLowerCase (description a))
                \<or> sublist (toLowerCase q) (toLowerCase (url a))
                \<or> sublist (toLowerCase q) (f (createdAt a))) (advertisements s)
   \<and> search f q (s\<lparr>storage := slot\<rparr>) = search f q s
   \<and> filteredAdvertisements (formatDate 0) ''job a'' [jobB, jobA] = [jobA]
   \<and> filteredAdvertisements (formatDate 0) ''JOB'' [jobB, jobA] = [jobB, jobA]
   \<and> filteredAdvertisements (formatDate 0) ''http://a'' [sampleAd 2, exampleAd, sampleAd 1] =
       [sampleAd 2, sampleAd 1]
   \<and> filteredAdvertisements (formatDate 0) ''golang'' [jobB, jobA] = []"
proof -
  have pred: "matchesQuery f q =
      (\<lambda>a. trim q = []
            \<or> sublist (toLowerCase q) (toLowerCase (description a))
            \<or> sublist (toLowerCase q) (toLowerCase (url a))
            \<or> sublist (toLowerCase q) (f (createdAt a)))"
    by (rule ext) (simp add: matchesQuery_def includes_str_sublist Let_def)
  have general: "filteredAdvertisements f q ads =
       filter (\<lambda>a. trim q = []
                \<or> sublist (toLowerCase q) (toLowerCase (description a))
                \<or> sublist (toLowerCase q) (toLowerCase (url a))
                \<or> sublist (toLowerCase q) (f (createdAt a))) ads" for ads
    by (simp add: filteredAdvertisements_def pred)
  have blank: "trim q = [] \<longrightarrow> filteredAdvertisements f q ads = ads"
    by (simp add: filteredAdvertisements_def matchesQuery_def)
  have sub: "subseq (filteredAdvertisements f q ads) ads"
    by (simp add: filteredAdvertisements_def)
  have st: "search f q (s\<lparr>storage := slot\<rparr>) = search f q s"
    by (simp add: search_def)
  have onState: "search f q s =
       filter (\<lambda>a. trim q = []
                \<or> sublist (toLowerCase q) (toLowerCase (description a))
                \<or> sublist (toLowerCase q) (toLowerCase (url a))
                \<or> sublist (toLowerCase q) (f (createdAt a))) (advertisements s)"
    using general [of "advertisements s"] by (simp add: search_def)
  from blank general [of ads] sub onState st scenario_examples
  show ?thesis
    by (intro conjI) assumption+
qed

text \<open>
  A query of space, tab, space and the empty query both give back the two records, and
  so does the predicate written out.
\<close>

theorem search_keeps_exactly_the_matches_witness:
  "trim [CHR '' '', CHR 0x09, CHR '' ''] = []
   \<and> filteredAdvertisements (formatDate 0) [CHR '' '', CHR 0x09, CHR '' '']
        [exampleAd, sampleAd 1] = [exampleAd, sampleAd 1]
   \<and> trim [] = []
   \<and> filteredAdvertisements (formatDate 0) [] [exampleAd, sampleAd 1] = [exampleAd, sampleAd 1]"
  using search_keeps_exactly_the_matches
      [of "[CHR '' '', CHR 0x09, CHR '' '']" "formatDate 0" "[exampleAd, sampleAd 1]"]
    search_keeps_exactly_the_matches [of "[]" "formatDate 0" "[exampleAd, sampleAd 1]"]
    trim_blank
  by simp

subsection \<open>Deleting twice\<close>

text \<open>
  Claim C8, as amended.  Deleting an id that no record has leaves the in-memory list as
  it was, whatever the user answers and whether or not the write goes through.  A
  confirmed delete done twice, with the same outcome of the write, leaves the same list,
  slot and screen as done once.  The function returns no value: what the user is told
  after a confirmed delete whose write went through is the notice of a deletion,
  whether or not a record matched.
\<close>

theorem delete_absent_id_keeps_list:
  "(i \<notin> id_ad ` set (advertisements s) \<longrightarrow>
      advertisements (deleteAdvertisement confirm writeOk i s) = advertisements s)
   \<and> advertisements (deleteAdvertisement True w i (deleteAdvertisement True w i s)) =
       advertisements (deleteAdvertisement True w i s)
   \<and> storage (deleteAdvertisement True w i (deleteAdvertisement True w i s)) =
       storage (deleteAdvertisement True w i s)
   \<and> currentScreen (deleteAdvertisement True w i (deleteAdvertisement True w i s)) =
       currentScreen (deleteAdvertisement True w i s)
   \<and> alerts (deleteAdvertisement True True i s) = alerts s @ [AlertConfirmDelete, AlertDeleted]"
proof -
  have "filter (\<lambda>ad. id_ad ad \<noteq> i) (advertisements s) = advertisements s"
    if "i \<notin> id_ad ` set (advertisements s)"
    using that by (auto simp: filter_id_conv)
  then show ?thesis
    by (simp add: advertisements_delete storage_delete currentScreen_delete alerts_delete)
qed

text \<open>The store holds one record with id \<open>1\<close>; deleting id \<open>2\<close> leaves it there.\<close>

theorem delete_absent_id_keeps_list_witness:
  "''2'' \<notin> id_ad ` set (advertisements oneAdState)
   \<and> advertisements (deleteAdvertisement True True ''2'' oneAdState) = advertisements oneAdState
   \<and> advertisements (deleteAdvertisement True False ''2'' oneAdState) = advertisements oneAdState"
proof -
  have absent: "''2'' \<notin> id_ad ` set (advertisements oneAdState)"
    by (simp add: oneAdState_def sampleAd_1_id)
  from delete_absent_id_keeps_list [of "''2''" oneAdState True True]
    delete_absent_id_keeps_list [of "''2''" oneAdState True False] absent
  show ?thesis
    by simp
qed

text \<open>
  The claim as stated fails: for the absent id \<open>2\<close> the delete does not answer
  \<open>false\<close>.  It shows the same notice of a deletion as for the id \<open>1\<close> that is present,
  and goes to the home screen.
\<close>

theorem delete_absent_id_counterexample:
  "''2'' \<notin> id_ad ` set (advertisements oneAdState)
   \<and> alerts (deleteAdvertisement True True ''2'' oneAdState) = [AlertConfirmDelete, AlertDeleted]
   \<and> alerts (deleteAdvertisement True True ''1'' oneAdState) = [AlertConfirmDelete, AlertDeleted]
   \<and> currentScreen (deleteAdvertisement True True ''2'' oneAdState) = Home"
  by (simp add: alerts_delete currentScreen_delete oneAdState_def sampleAd_1_id)

subsection \<open>Reading back\<close>

text \<open>
  Claim C9.  Reading back what was written is the identity: parsing the text of a list
  gives that list, so after a successful add and a restart the load restores the whole
  list, and its first record has the id, image, description, link and creation time of
  the record that was added.
\<close>

theorem reload_after_add_roundtrip:
  "JSON_parse (JSON_stringify ads) = Advertisements ads
   \<and> loadAdvertisements True (restart (addAdvertisement True now1 now2 img d u s)) =
     Loaded ((restart (addAdvertisement True now1 now2 img d u s))
       \<lparr>advertisements :=
          \<lparr>id_ad = Number_toString now1, imageUri = img, description = d, url = u,
            createdAt = now2\<rparr> # advertisements s,
        loading := False\<rparr>)
   \<and> advertisements (addAdvertisement True now1 now2 img d u s) =
     \<lparr>id_ad = Number_toString now1, imageUri = img, description = d, url = u,
       createdAt = now2\<rparr> # advertisements s
   \<and> hd (advertisements (addAdvertisement True now1 now2 img d u s)) =
     \<lparr>id_ad = Number_toString now1, imageUri = img, description = d, url = u,
       createdAt = now2\<rparr>"
proof -
  let ?s1 = "addAdvertisement True now1 now2 img d u s"
  have "storage ?s1 = Some (JSON_stringify (advertisements ?s1))"
    by (simp add: storage_add advertisements_add)
  then have "loadAdvertisements True (restart ?s1) =
      Loaded ((restart ?s1)\<lparr>advertisements := advertisements ?s1, loading := False\<rparr>)"
    by (rule load_after_restart)
  then show ?thesis
    by (simp add: advertisements_add JSON_parse_stringify)
qed

subsection \<open>What a delete removes\<close>

text \<open>
  Claim C10.  A confirmed delete whose write goes through leaves exactly the records
  whose id differs from the given one, every match removed, the others unchanged and in
  their order; and it writes the resulting list to the slot whether or not a record
  matched: from an empty store with no slot the slot becomes the text of the empty list.
\<close>

theorem delete_removes_every_match:
  "advertisements (deleteAdvertisement True True i s) =
     filter (\<lambda>ad. id_ad ad \<noteq> i) (advertisements s)
   \<and> i \<notin> id_ad ` set (advertisements (deleteAdvertisement True True i s))
   \<and> filter (\<lambda>ad. id_ad ad \<noteq> i) (advertisements (deleteAdvertisement True True i s)) =
     filter (\<lambda>ad. id_ad ad \<noteq> i) (advertisements s)
   \<and> subseq (advertisements (deleteAdvertisement True True i s)) (advertisements s)
   \<and> storage (deleteAdvertisement True True i s) =
     Some (JSON_stringify (filter (\<lambda>ad. id_ad ad \<noteq> i) (advertisements s)))
   \<and> storage (deleteAdvertisement True True i (initialState None)) = Some ''[]''"
  by (auto simp: advertisements_delete storage_delete initialState_def JSON_stringify_def)

end
